theory Spec2Isabelle
  imports
    Main
    "HOL-Library.Char_ord"
    "HOL-Library.List_Lexorder"
    "HOL-Library.Option_ord"
    "HOL-Library.Product_Lexorder"
    "HOL-Library.Log_Nat"
begin

section \<open>Texts and the Python string operations the handlers use\<close>

text \<open>
  A text is a \<^typ>\<open>string\<close>: a list of characters, each read as a code point below 256.
  The operations below follow Python's \<^verbatim>\<open>str\<close> methods on such texts.
  \<^verbatim>\<open>str.strip()\<close> and \<^verbatim>\<open>str.split()\<close> treat as white space the code points 9 to 13,
  28 to 32, 133 and 160. \<^verbatim>\<open>int()\<close> and \<^verbatim>\<open>float()\<close> skip white space around the numeral,
  but not the code points 28 to 31.
\<close>

definition is_space :: "char \<Rightarrow> bool" where
  "is_space c = ((of_char c :: nat) \<in> set [9, 10, 11, 12, 13, 28, 29, 30, 31, 32, 133, 160])"

definition is_digit :: "char \<Rightarrow> bool" where
  "is_digit c = (48 \<le> (of_char c :: nat) \<and> (of_char c :: nat) \<le> 57)"

definition digit_val :: "char \<Rightarrow> nat" where
  "digit_val c = of_char c - 48"

definition py_strip :: "string \<Rightarrow> string" where
  "py_strip s = rev (dropWhile is_space (rev (dropWhile is_space s)))"

definition is_num_space :: "char \<Rightarrow> bool" where
  "is_num_space c = ((of_char c :: nat) \<in> set [9, 10, 11, 12, 13, 32, 133, 160])"

definition num_strip :: "string \<Rightarrow> string" where
  "num_strip s = rev (dropWhile is_num_space (rev (dropWhile is_num_space s)))"

text \<open>\<^verbatim>\<open>s.split()\<close>: the maximal runs of characters that are not white space.\<close>

fun split_acc :: "string \<Rightarrow> string \<Rightarrow> string list" where
  "split_acc acc [] = (if acc = [] then [] else [acc])"
| "split_acc acc (c # cs) =
     (if is_space c
      then (if acc = [] then split_acc [] cs else acc # split_acc [] cs)
      else split_acc (acc @ [c]) cs)"

definition py_split :: "string \<Rightarrow> string list" where
  "py_split s = split_acc [] s"

definition py_startswith :: "string \<Rightarrow> string \<Rightarrow> bool" where
  "py_startswith s p = (take (length p) s = p)"

text \<open>
  \<^verbatim>\<open>s.replace(old, new)\<close>: every occurrence of \<open>old\<close>, found from the left without
  overlap, becomes \<open>new\<close>. With an empty \<open>old\<close> Python puts \<open>new\<close> before every character
  and at the end.
\<close>

function py_replace :: "string \<Rightarrow> string \<Rightarrow> string \<Rightarrow> string" where
  "py_replace old new s =
     (if old = [] then new @ concat (map (\<lambda>c. c # new) s)
      else if s = [] then []
      else if take (length old) s = old then new @ py_replace old new (drop (length old) s)
      else hd s # py_replace old new (tl s))"
  by pat_completeness auto
termination
  by (relation "measure (\<lambda>(old, new, s). length s)") (auto simp: neq_Nil_conv)

declare py_replace.simps [simp del]

definition py_truthy :: "string option \<Rightarrow> bool" where
  "py_truthy x = (case x of None \<Rightarrow> False | Some s \<Rightarrow> s \<noteq> [])"

subsection \<open>Parsing integers\<close>

text \<open>
  Both \<^verbatim>\<open>int(s)\<close> and \<^verbatim>\<open>float(s)\<close> accept a single underscore between two digits
  and nowhere else. \<open>drop_underscores\<close> removes them, or fails.
\<close>

fun drop_underscores :: "bool \<Rightarrow> string \<Rightarrow> string option" where
  "drop_underscores prev_digit [] = Some []"
| "drop_underscores prev_digit (c # cs) =
     (if c = CHR ''_''
      then (if prev_digit \<and> cs \<noteq> [] \<and> is_digit (hd cs) then drop_underscores False cs else None)
      else map_option ((#) c) (drop_underscores (is_digit c) cs))"

definition digits_nat :: "string \<Rightarrow> nat" where
  "digits_nat ds = foldl (\<lambda>n c. 10 * n + digit_val c) 0 ds"

text \<open>An optional sign: the factor and the rest of the text.\<close>

definition split_sign :: "string \<Rightarrow> int \<times> string" where
  "split_sign s =
     (case s of
        [] \<Rightarrow> (1, [])
      | c # cs \<Rightarrow> if c = CHR ''-'' then (-1, cs) else if c = CHR ''+'' then (1, cs) else (1, s))"

text \<open>
  \<^verbatim>\<open>int(s)\<close> in base 10; \<open>None\<close> stands for \<^verbatim>\<open>ValueError\<close>.
\<close>

definition py_int :: "string \<Rightarrow> int option" where
  "py_int s =
     (case drop_underscores False (num_strip s) of
        None \<Rightarrow> None
      | Some t \<Rightarrow>
          (let (sgn, ds) = split_sign t
           in if ds \<noteq> [] \<and> list_all is_digit ds then Some (sgn * int (digits_nat ds)) else None))"

section \<open>The store\<close>

text \<open>
  The three tables of \<^verbatim>\<open>init_db\<close>, each a list of rows in the order the store scans
  them. A nullable column is an \<open>option\<close>. Timestamps (\<^verbatim>\<open>CURRENT_TIMESTAMP\<close>, UTC) are
  seconds since the epoch: the store keeps them as \<^verbatim>\<open>YYYY-MM-DD HH:MM:SS\<close> texts, whose
  order as texts is the order of the instants. Every operation that writes a timestamp
  or reads the clock takes the clock's reading \<open>now\<close> as an argument. The statements are
  assumed to execute: a store that cannot be reached is outside the model.
\<close>

record user_row =
  u_user_id :: int
  u_username :: "string option"
  u_first_name :: "string option"
  u_last_name :: "string option"
  u_is_subscribed :: int
  u_partner_code :: "string option"
  u_registered_at :: int
  u_ref_partner_code :: "string option"

record partner_row =
  p_partner_code :: string
  p_username :: "string option"
  p_user_id :: "int option"
  p_created_at :: int

datatype pyfloat = Finite rat | PosInf | NegInf | NaN

record purchase_row =
  pu_id :: int
  pu_user_id :: int
  pu_amount :: pyfloat
  pu_comment :: string
  pu_created_at :: int

record store =
  users :: "user_row list"
  partners :: "partner_row list"
  purchases :: "purchase_row list"
  purchases_seq :: int

datatype error = OverflowError | KeyError string

text \<open>
  An integer bound to a statement must fit the store's 64-bit \<^verbatim>\<open>INTEGER\<close>; the binding
  raises \<^verbatim>\<open>OverflowError\<close> otherwise. Account ids delivered by the transport fit; the
  check is modelled where the integer comes from a typed text or a page index.
\<close>

definition in_int64 :: "int \<Rightarrow> bool" where
  "in_int64 n = (- (2 ^ 63) \<le> n \<and> n < 2 ^ 63)"

subsection \<open>Users\<close>

text \<open>
  A new row is put at the end of the list. The store itself scans the users table by
  account id, its integer primary key, so where several rows match a lookup by handle
  the row the store returns first may be another one of them than the first of the
  list, which is the one the lookups here return.
\<close>

definition add_user ::
  "int \<Rightarrow> store \<Rightarrow> int \<Rightarrow> string option \<Rightarrow> string option \<Rightarrow> string option \<Rightarrow> string option \<Rightarrow> store"
where
  "add_user now s user_id username first_name last_name ref_partner_code =
     (let exists = find (\<lambda>u. u_user_id u = user_id) (users s)
      in if exists = None
         then s\<lparr>users := users s @
                  [\<lparr>u_user_id = user_id, u_username = username, u_first_name = first_name,
                    u_last_name = last_name, u_is_subscribed = 0, u_partner_code = None,
                    u_registered_at = now, u_ref_partner_code = ref_partner_code\<rparr>]\<rparr>
         else s)"

definition update_subscription :: "store \<Rightarrow> int \<Rightarrow> bool \<Rightarrow> store" where
  "update_subscription s user_id is_sub =
     s\<lparr>users := map (\<lambda>u. if u_user_id u = user_id
                           then u\<lparr>u_is_subscribed := (if is_sub then 1 else 0)\<rparr> else u)
                    (users s)\<rparr>"

definition is_subscribed :: "store \<Rightarrow> int \<Rightarrow> bool" where
  "is_subscribed s user_id =
     (case find (\<lambda>u. u_user_id u = user_id) (users s) of
        Some u \<Rightarrow> u_is_subscribed u = 1
      | None \<Rightarrow> False)"

definition get_user_by_username :: "store \<Rightarrow> string \<Rightarrow> user_row option" where
  "get_user_by_username s username = find (\<lambda>u. u_username u = Some username) (users s)"

text \<open>
  \<^verbatim>\<open>get_user_by_id_or_username\<close>: a query that \<^verbatim>\<open>int()\<close> accepts is looked up by account
  id only; any other query is looked up by handle, with every \<^verbatim>\<open>@\<close> removed. The
  four columns the source selects are fields of the row returned here.
\<close>

definition get_user_by_id_or_username :: "store \<Rightarrow> string \<Rightarrow> error + user_row option" where
  "get_user_by_id_or_username s query =
     (case py_int query of
        Some user_id \<Rightarrow>
          if in_int64 user_id then Inr (find (\<lambda>u. u_user_id u = user_id) (users s))
          else Inl OverflowError
      | None \<Rightarrow>
          Inr (find (\<lambda>u. u_username u = Some (py_replace ''@'' '''' query)) (users s)))"

subsection \<open>Partners\<close>

definition add_partner :: "int \<Rightarrow> store \<Rightarrow> string \<Rightarrow> string \<Rightarrow> int \<Rightarrow> store \<times> bool" where
  "add_partner now s partner_code username user_id =
     (if find (\<lambda>p. p_partner_code p = partner_code) (partners s) = None
      then (s\<lparr>partners := partners s @
                 [\<lparr>p_partner_code = partner_code, p_username = Some username,
                   p_user_id = Some user_id, p_created_at = now\<rparr>]\<rparr>, True)
      else (s, False))"

definition remove_partner :: "store \<Rightarrow> string \<Rightarrow> store \<times> bool" where
  "remove_partner s username =
     (case find (\<lambda>p. p_username p = Some username) (partners s) of
        Some result \<Rightarrow>
          (s\<lparr>partners := filter (\<lambda>p. p_username p \<noteq> Some username) (partners s)\<rparr>, True)
      | None \<Rightarrow> (s, False))"

definition get_partner_by_code :: "store \<Rightarrow> string \<Rightarrow> partner_row option" where
  "get_partner_by_code s partner_code = find (\<lambda>p. p_partner_code p = partner_code) (partners s)"

definition get_partner_by_username :: "store \<Rightarrow> string \<Rightarrow> partner_row option" where
  "get_partner_by_username s username = find (\<lambda>p. p_username p = Some username) (partners s)"

definition update_partner_user_id :: "store \<Rightarrow> string \<Rightarrow> int \<Rightarrow> store" where
  "update_partner_user_id s username user_id =
     s\<lparr>partners :=
         map (\<lambda>p. if p_username p = Some username \<and> (p_user_id p = Some 0 \<or> p_user_id p = None)
                  then p\<lparr>p_user_id := Some user_id\<rparr> else p)
             (partners s)\<rparr>"

subsection \<open>Purchases\<close>

text \<open>
  The \<^verbatim>\<open>AUTOINCREMENT\<close> key is one more than the largest key given out so far, kept in
  \<open>purchases_seq\<close>. The \<^verbatim>\<open>INSERT\<close> is taken to execute, so the result is always \<open>True\<close>:
  the account ids bound here come from rows of the users table. The amount column holds
  the value that was bound; for not-a-number the store itself keeps \<^verbatim>\<open>NULL\<close>.
\<close>

definition add_purchase :: "int \<Rightarrow> store \<Rightarrow> int \<Rightarrow> pyfloat \<Rightarrow> string \<Rightarrow> store \<times> bool" where
  "add_purchase now s user_id amount comment =
     (s\<lparr>purchases := purchases s @
           [\<lparr>pu_id = purchases_seq s + 1, pu_user_id = user_id, pu_amount = amount,
             pu_comment = comment, pu_created_at = now\<rparr>],
        purchases_seq := purchases_seq s + 1\<rparr>, True)"

section \<open>The subscription gate\<close>

text \<open>
  What \<^verbatim>\<open>bot.get_chat_member\<close> gives: a member with a status, or an exception.
\<close>

datatype oracle_result = MemberStatus string | OracleFailure

definition check_subscription :: "oracle_result \<Rightarrow> bool" where
  "check_subscription r =
     (case r of
        MemberStatus status \<Rightarrow> status \<in> set [''member'', ''administrator'', ''creator'']
      | OracleFailure \<Rightarrow> False)"

section \<open>The start command\<close>

datatype log_entry = WarnBadRefCode string | InfoPartnerFound string

text \<open>
  Lines 103 to 114 of \<^verbatim>\<open>cmd_start\<close>: the referral code taken from the second word of the
  message, kept only when a partner has it.
\<close>

definition start_ref_code :: "store \<Rightarrow> string \<Rightarrow> string option \<times> log_entry list" where
  "start_ref_code s text =
     (if length (py_split text) > 1
      then (let ref_arg = py_split text ! 1
            in if py_startswith ref_arg ''ref_''
               then (let ref_code = py_replace ''ref_'' '''' ref_arg
                     in case get_partner_by_code s ref_code of
                          None \<Rightarrow> (None, [WarnBadRefCode ref_code])
                        | Some partner \<Rightarrow> (Some ref_code, [InfoPartnerFound ref_code]))
               else (None, []))
      else (None, []))"

text \<open>
  Lines 95 to 123: registration with first-touch attribution, then the lazy link of a
  partner row to the account that carries the partner's handle.
\<close>

definition start_register ::
  "int \<Rightarrow> store \<Rightarrow> int \<Rightarrow> string option \<Rightarrow> string option \<Rightarrow> string option \<Rightarrow> string \<Rightarrow>
   store \<times> log_entry list"
where
  "start_register now s user_id username first_name last_name text =
     (let (ref_code, lg) = start_ref_code s text;
          s1 = add_user now s user_id username first_name last_name ref_code;
          s2 = (if py_truthy username then update_partner_user_id s1 (the username) user_id
                else s1)
      in (s2, lg))"

datatype start_reply = Welcome | SubscribePrompt

text \<open>
  The whole handler: registration, then the subscription check and its record
  (lines 125 to 153).
\<close>

definition cmd_start ::
  "int \<Rightarrow> oracle_result \<Rightarrow> store \<Rightarrow> int \<Rightarrow> string option \<Rightarrow> string option \<Rightarrow> string option \<Rightarrow>
   string \<Rightarrow> start_reply \<times> store \<times> log_entry list"
where
  "cmd_start now oracle s user_id username first_name last_name text =
     (let (s2, lg) = start_register now s user_id username first_name last_name text;
          is_sub = check_subscription oracle;
          s3 = update_subscription s2 user_id is_sub
      in (if is_sub then Welcome else SubscribePrompt, s3, lg))"

definition check_subscription_callback :: "oracle_result \<Rightarrow> store \<Rightarrow> int \<Rightarrow> bool \<times> store" where
  "check_subscription_callback oracle s user_id =
     (let is_sub = check_subscription oracle
      in (is_sub, update_subscription s user_id is_sub))"

section \<open>Parsing amounts\<close>

text \<open>
  A Python \<^verbatim>\<open>float\<close> is a binary64 value: a finite rational (the two zeros are not
  told apart), an infinity, or not-a-number. \<^verbatim>\<open>float(s)\<close> reads a decimal numeral with
  an optional fraction and exponent, or \<^verbatim>\<open>inf\<close>, \<^verbatim>\<open>infinity\<close>, \<^verbatim>\<open>nan\<close> in any case,
  and rounds the numeral to the nearest binary64 value, ties to even.
\<close>

definition rpow :: "rat \<Rightarrow> int \<Rightarrow> rat" where
  "rpow b k = (if 0 \<le> k then b ^ nat k else 1 / b ^ nat (- k))"

lemma floor_half_less:
  fixes x :: rat
  assumes "1 \<le> x"
  shows "\<lfloor>x / 2\<rfloor> < \<lfloor>x\<rfloor>"
proof -
  have "1 \<le> \<lfloor>x\<rfloor>"
    using assms by (simp add: le_floor_iff)
  then have "(1::rat) \<le> of_int \<lfloor>x\<rfloor>"
    by simp
  moreover have "x < of_int \<lfloor>x\<rfloor> + 1"
    by linarith
  ultimately have "x / 2 < of_int \<lfloor>x\<rfloor>"
    by linarith
  then show ?thesis
    by (simp add: floor_less_iff)
qed

text \<open>For a positive \<open>q\<close>, the exponent \<open>e\<close> with \<open>2 ^ e \<le> q < 2 ^ (e + 1)\<close>.\<close>

function floor_log2 :: "rat \<Rightarrow> int" where
  "floor_log2 q =
     (if q \<le> 0 then 0
      else if 2 \<le> q then floor_log2 (q / 2) + 1
      else if q < 1 then floor_log2 (2 * q) - 1
      else 0)"
  by pat_completeness auto
termination
proof (relation "measure (\<lambda>q. if 1 \<le> q then nat \<lfloor>q\<rfloor> else nat \<lfloor>1 / q\<rfloor> + 1)")
  show "wf (measure (\<lambda>q::rat. if 1 \<le> q then nat \<lfloor>q\<rfloor> else nat \<lfloor>1 / q\<rfloor> + 1))"
    by simp
next
  fix q :: rat
  assume "\<not> q \<le> 0" and big: "2 \<le> q"
  then have "\<lfloor>q / 2\<rfloor> < \<lfloor>q\<rfloor>"
    by (simp add: floor_half_less)
  moreover have "0 \<le> \<lfloor>q / 2\<rfloor>"
    using big by simp
  ultimately
  show "(q / 2, q) \<in> measure (\<lambda>q. if 1 \<le> q then nat \<lfloor>q\<rfloor> else nat \<lfloor>1 / q\<rfloor> + 1)"
    using big by simp
next
  fix q :: rat
  assume pos: "\<not> q \<le> 0" and "\<not> 2 \<le> q" and small: "q < 1"
  then have inv: "1 \<le> 1 / q"
    by (simp add: field_simps)
  have half: "1 / (2 * q) = (1 / q) / 2"
    by simp
  have less: "\<lfloor>(1 / q) / 2\<rfloor> < \<lfloor>1 / q\<rfloor>"
    using inv by (rule floor_half_less)
  have nonneg: "0 \<le> \<lfloor>(1 / q) / 2\<rfloor>"
    using pos by simp
  have one: "\<lfloor>2 * q\<rfloor> = 1" if "1 \<le> 2 * q"
    using small that by linarith
  have two: "1 \<le> \<lfloor>1 / q\<rfloor>"
    using inv by (simp add: le_floor_iff)
  show "(2 * q, q) \<in> measure (\<lambda>q. if 1 \<le> q then nat \<lfloor>q\<rfloor> else nat \<lfloor>1 / q\<rfloor> + 1)"
  proof (cases "1 \<le> 2 * q")
    case True
    then show ?thesis
      using small one two by simp
  next
    case False
    then show ?thesis
      using small less nonneg two unfolding in_measure half by simp
  qed
qed

declare floor_log2.simps [simp del]

definition round_half_even :: "rat \<Rightarrow> int" where
  "round_half_even x =
     (let f = \<lfloor>x\<rfloor>; r = x - of_int f
      in if r < 1 / 2 then f else if 1 / 2 < r then f + 1 else if even f then f else f + 1)"

definition round_binary64 :: "rat \<Rightarrow> pyfloat" where
  "round_binary64 q =
     (if q = 0 then Finite 0
      else (let a = \<bar>q\<bar>;
                e = max (floor_log2 a) (- 1022);
                u = rpow 2 (e - 52);
                v = of_int (round_half_even (a / u)) * u
            in if rpow 2 1024 \<le> v then (if 0 < q then PosInf else NegInf)
               else Finite (if 0 < q then v else - v)))"

definition ascii_lower :: "char \<Rightarrow> char" where
  "ascii_lower c =
     (if 65 \<le> (of_char c :: nat) \<and> (of_char c :: nat) \<le> 90 then char_of (of_char c + 32 :: nat)
      else c)"

definition parse_exponent :: "string \<Rightarrow> int option" where
  "parse_exponent r =
     (case r of
        [] \<Rightarrow> Some 0
      | c # cs \<Rightarrow>
          if c = CHR ''e'' \<or> c = CHR ''E''
          then (let (sgn, ds) = split_sign cs
                in if ds \<noteq> [] \<and> list_all is_digit ds then Some (sgn * int (digits_nat ds))
                   else None)
          else None)"

text \<open>\<open>None\<close> stands for \<^verbatim>\<open>ValueError\<close>.\<close>

definition py_float :: "string \<Rightarrow> pyfloat option" where
  "py_float s =
     (case drop_underscores False (num_strip s) of
        None \<Rightarrow> None
      | Some t \<Rightarrow>
          (let (sgn, r) = split_sign t; low = map ascii_lower r
           in if low = ''inf'' \<or> low = ''infinity'' then Some (if sgn < 0 then NegInf else PosInf)
              else if low = ''nan'' then Some NaN
              else (let ip = takeWhile is_digit r;
                        r1 = dropWhile is_digit r;
                        has_dot = (r1 \<noteq> [] \<and> hd r1 = CHR ''.'');
                        fp = (if has_dot then takeWhile is_digit (tl r1) else []);
                        r2 = (if has_dot then dropWhile is_digit (tl r1) else r1)
                    in if ip = [] \<and> fp = [] then None
                       else (case parse_exponent r2 of
                               None \<Rightarrow> None
                             | Some ex \<Rightarrow>
                                 Some (round_binary64
                                   (of_int sgn * of_nat (digits_nat (ip @ fp))
                                      * rpow 10 (ex - int (length fp))))))))"

text \<open>The comparison \<^verbatim>\<open>amount <= 0\<close>; it is false of not-a-number.\<close>

definition le_zero :: "pyfloat \<Rightarrow> bool" where
  "le_zero x = (case x of Finite q \<Rightarrow> q \<le> 0 | NegInf \<Rightarrow> True | PosInf \<Rightarrow> False | NaN \<Rightarrow> False)"

section \<open>Queries behind the admin views\<close>

text \<open>
  \<^verbatim>\<open>LEFT JOIN partners p ON u.ref_partner_code = p.partner_code\<close>: the handle of the
  partner whose code the user row carries, if there is one.
\<close>

definition partner_username_of :: "store \<Rightarrow> user_row \<Rightarrow> string option" where
  "partner_username_of s u =
     (case u_ref_partner_code u of
        None \<Rightarrow> None
      | Some c \<Rightarrow>
          (case find (\<lambda>p. p_partner_code p = c) (partners s) of
             None \<Rightarrow> None
           | Some p \<Rightarrow> p_username p))"

definition join_partner :: "store \<Rightarrow> user_row \<Rightarrow> user_row \<times> string option" where
  "join_partner s u = (u, partner_username_of s u)"

text \<open>
  \<^verbatim>\<open>LIMIT ? OFFSET ?\<close>: a negative offset counts as zero, a negative limit as no limit.
\<close>

definition sql_limit_offset :: "int \<Rightarrow> int \<Rightarrow> 'a list \<Rightarrow> 'a list" where
  "sql_limit_offset limit offset xs =
     (let ys = drop (nat offset) xs in if limit < 0 then ys else take (nat limit) ys)"

text \<open>
  \<^verbatim>\<open>ORDER BY registered_at DESC\<close>; rows with equal timestamps stay in scan order here
  (SQL leaves their order open).
\<close>

definition get_all_users ::
  "store \<Rightarrow> int \<Rightarrow> int \<Rightarrow> error + (user_row \<times> string option) list \<times> int"
where
  "get_all_users s limit offset =
     (if in_int64 limit \<and> in_int64 offset
      then Inr (map (join_partner s)
                  (sql_limit_offset limit offset
                     (sort_key (\<lambda>u. - u_registered_at u) (users s))),
                int (length (users s)))
      else Inl OverflowError)"

definition join_purchase ::
  "store \<Rightarrow> purchase_row \<Rightarrow> purchase_row \<times> user_row option \<times> string option"
where
  "join_purchase s p =
     (case find (\<lambda>u. u_user_id u = pu_user_id p) (users s) of
        None \<Rightarrow> (p, None, None)
      | Some u \<Rightarrow> (p, Some u, partner_username_of s u))"

definition get_all_purchases ::
  "store \<Rightarrow> int \<Rightarrow> int \<Rightarrow>
   error + (purchase_row \<times> user_row option \<times> string option) list \<times> int"
where
  "get_all_purchases s limit offset =
     (if in_int64 limit \<and> in_int64 offset
      then Inr (map (join_purchase s)
                  (sql_limit_offset limit offset
                     (sort_key (\<lambda>p. - pu_created_at p) (purchases s))),
                int (length (purchases s)))
      else Inl OverflowError)"

text \<open>
  \<^verbatim>\<open>LIKE\<close>: \<^verbatim>\<open>%\<close> stands for any run of characters, \<^verbatim>\<open>_\<close> for any one character,
  and the letters A to Z match without regard to case. A \<^verbatim>\<open>NULL\<close> column matches nothing.
\<close>

fun sql_like :: "string \<Rightarrow> string \<Rightarrow> bool" where
  "sql_like [] t = (t = [])"
| "sql_like (p # ps) [] = (p = CHR ''%'' \<and> sql_like ps [])"
| "sql_like (p # ps) (c # cs) =
     (if p = CHR ''%'' then sql_like ps (c # cs) \<or> sql_like (p # ps) cs
      else if p = CHR ''_'' then sql_like ps cs
      else ascii_lower p = ascii_lower c \<and> sql_like ps cs)"

definition like_col :: "string \<Rightarrow> string option \<Rightarrow> bool" where
  "like_col pat col = (case col of None \<Rightarrow> False | Some t \<Rightarrow> sql_like pat t)"

definition search_users :: "store \<Rightarrow> string \<Rightarrow> error + (user_row \<times> string option) list" where
  "search_users s query =
     (let clean_query = py_strip (py_replace ''@'' '''' query)
      in case py_int clean_query of
           Some user_id \<Rightarrow>
             if in_int64 user_id
             then Inr (map (join_partner s) (filter (\<lambda>u. u_user_id u = user_id) (users s)))
             else Inl OverflowError
         | None \<Rightarrow>
             (let pat = ''%'' @ clean_query @ ''%''
              in Inr (map (join_partner s)
                        (sort_key (\<lambda>u. (u_first_name u, u_username u))
                           (filter (\<lambda>u. like_col pat (u_username u) \<or> like_col pat (u_first_name u)
                                         \<or> like_col pat (u_last_name u))
                              (users s))))))"

subsection \<open>Partner statistics\<close>

text \<open>
  The four counts of \<^verbatim>\<open>get_partner_stats\<close>. \<^verbatim>\<open>date('now')\<close> is the start of the current
  UTC day, \<^verbatim>\<open>datetime('now', '-7 days')\<close> the instant 7 days before now. The four
  statements are taken to read the same instant and the same table.
\<close>

definition start_of_day :: "int \<Rightarrow> int" where
  "start_of_day now = now - now mod 86400"

definition count_ref_since :: "store \<Rightarrow> string \<Rightarrow> int \<Rightarrow> int" where
  "count_ref_since s partner_code since =
     int (length (filter (\<lambda>u. u_ref_partner_code u = Some partner_code \<and> since \<le> u_registered_at u)
                    (users s)))"

record partner_stats =
  st_today :: int
  st_week :: int
  st_month :: int
  st_total :: int

definition get_partner_stats :: "store \<Rightarrow> int \<Rightarrow> string \<Rightarrow> partner_stats" where
  "get_partner_stats s now partner_code =
     \<lparr>st_today = count_ref_since s partner_code (start_of_day now),
      st_week = count_ref_since s partner_code (now - 7 * 86400),
      st_month = count_ref_since s partner_code (now - 30 * 86400),
      st_total = int (length (filter (\<lambda>u. u_ref_partner_code u = Some partner_code) (users s)))\<rparr>"

section \<open>Paginated list views\<close>

datatype button =
  BtnUsersPage int | BtnPurchasesPage int | BtnUsersSearch | BtnAdminMenu
  | BtnPurchaseAdd | BtnAdminPurchases

text \<open>
  What a list view shows: the rows of the page (none: the "not found" text), the total
  and the page index of the heading, and the rows of buttons under the text.
\<close>

record 'a page_view =
  pv_rows :: "'a list"
  pv_total :: int
  pv_page :: int
  pv_keyboard :: "button list list"

text \<open>A Python slice \<^verbatim>\<open>xs[a:b]\<close>: a negative index counts from the end.\<close>

definition py_slice :: "'a list \<Rightarrow> int \<Rightarrow> int \<Rightarrow> 'a list" where
  "py_slice xs a b =
     (let n = int (length xs);
          lo = (if a < 0 then max (n + a) 0 else min a n);
          hi = (if b < 0 then max (n + b) 0 else min b n)
      in take (nat (hi - lo)) (drop (nat lo) xs))"

text \<open>
  The pagination buttons of both views: lines 560 to 567 and 753 to 760, with the
  callback data of the view's own page buttons.
\<close>

definition nav_buttons :: "(int \<Rightarrow> button) \<Rightarrow> int \<Rightarrow> int \<Rightarrow> int \<Rightarrow> button list list" where
  "nav_buttons mk page limit total_count =
     (if total_count > limit
      then (let nav = (if page > 0 then [mk (page - 1)] else [])
                      @ (if (page + 1) * limit < total_count then [mk (page + 1)] else [])
            in if nav \<noteq> [] then [nav] else [])
      else [])"

definition show_users_page ::
  "store \<Rightarrow> int \<Rightarrow> string option \<Rightarrow> error + (user_row \<times> string option) page_view"
where
  "show_users_page s page search_query =
     (let limit = 15; offset = page * limit;
          fetched = (if py_truthy search_query
                     then (case search_users s (the search_query) of
                             Inl e \<Rightarrow> Inl e
                           | Inr found \<Rightarrow>
                               Inr (py_slice found offset (offset + limit), int (length found)))
                     else get_all_users s limit offset)
      in case fetched of
           Inl e \<Rightarrow> Inl e
         | Inr (rows, total_count) \<Rightarrow>
             Inr \<lparr>pv_rows = rows, pv_total = total_count, pv_page = page,
                  pv_keyboard = nav_buttons BtnUsersPage page limit total_count
                                @ [[BtnUsersSearch], [BtnAdminMenu]]\<rparr>)"

definition is_admin :: "int list \<Rightarrow> int \<Rightarrow> bool" where
  "is_admin admin_ids user_id = (user_id \<in> set admin_ids)"

datatype 'a shown = AccessDenied | Shown 'a

definition show_purchases_page ::
  "int list \<Rightarrow> store \<Rightarrow> int \<Rightarrow> int \<Rightarrow>
   error + (purchase_row \<times> user_row option \<times> string option) page_view shown"
where
  "show_purchases_page admin_ids s from_id page =
     (if \<not> is_admin admin_ids from_id then Inr AccessDenied
      else (let limit = 10; offset = page * limit
            in case get_all_purchases s limit offset of
                 Inl e \<Rightarrow> Inl e
               | Inr (rows, total_count) \<Rightarrow>
                   Inr (Shown \<lparr>pv_rows = rows, pv_total = total_count, pv_page = page,
                               pv_keyboard = nav_buttons BtnPurchasesPage page limit total_count
                                             @ [[BtnPurchaseAdd], [BtnAdminPurchases]]\<rparr>)))"

section \<open>The admin conversations\<close>

datatype fsm_state =
  PartnerStates_waiting_username
  | PartnerStates_waiting_delete_username
  | UserSearchStates_waiting_query
  | PurchaseStates_waiting_user_input
  | PurchaseStates_waiting_amount
  | PurchaseStates_waiting_comment

text \<open>
  The data of a conversation is a dictionary that only \<^verbatim>\<open>update_data\<close> fills, with four
  keys; a key that is absent is \<open>None\<close>. \<^verbatim>\<open>state.clear()\<close> leaves no state and no data.
\<close>

record fsm_data =
  d_user_id :: "int option"
  d_username :: "string option option"
  d_first_name :: "string option option"
  d_amount :: "pyfloat option"

record fsm_ctx =
  ctx_state :: "fsm_state option"
  ctx_data :: fsm_data

definition no_data :: fsm_data where
  "no_data = \<lparr>d_user_id = None, d_username = None, d_first_name = None, d_amount = None\<rparr>"

definition state_clear :: fsm_ctx where
  "state_clear = \<lparr>ctx_state = None, ctx_data = no_data\<rparr>"

text \<open>The message a handler answers with, by its kind and the values it shows.\<close>

datatype reply =
  NoAccess
  | AlreadyPartner
  | PartnerAdded string int string
  | PartnerAddError
  | PartnerDeleted string
  | NotAPartner string
  | SearchNotFound string
  | SearchResults string int "(user_row \<times> string option) list"
  | UserNotFound
  | UserFound user_row
  | AmountNotPositive
  | AmountBadFormat
  | AmountAccepted pyfloat
  | PurchaseAdded "string option" "string option" int pyfloat string
  | PurchaseAddError

type_synonym handler_result = "error + reply \<times> store \<times> fsm_ctx"

text \<open>
  The handlers of free-text replies, one per conversation state. \<open>partner_code\<close> is
  the code \<^verbatim>\<open>generate_partner_code\<close> draws during the call.
\<close>

definition partner_add_process ::
  "int list \<Rightarrow> int \<Rightarrow> string \<Rightarrow> store \<Rightarrow> fsm_ctx \<Rightarrow> int \<Rightarrow> string \<Rightarrow> handler_result"
where
  "partner_add_process admin_ids now partner_code s ctx from_id text =
     (if \<not> is_admin admin_ids from_id then Inr (NoAccess, s, state_clear)
      else (let username = py_replace ''@'' '''' (py_strip text)
            in case get_partner_by_username s username of
                 Some existing \<Rightarrow> Inr (AlreadyPartner, s, state_clear)
               | None \<Rightarrow>
                   (let user_id = (case get_user_by_username s username of
                                     Some user \<Rightarrow> u_user_id user | None \<Rightarrow> 0);
                        (s', success) = add_partner now s partner_code username user_id
                    in Inr (if success then PartnerAdded username user_id partner_code
                            else PartnerAddError, s', state_clear))))"

definition partner_delete_process ::
  "int list \<Rightarrow> store \<Rightarrow> fsm_ctx \<Rightarrow> int \<Rightarrow> string \<Rightarrow> handler_result"
where
  "partner_delete_process admin_ids s ctx from_id text =
     (if \<not> is_admin admin_ids from_id then Inr (NoAccess, s, state_clear)
      else (let username = py_replace ''@'' '''' (py_strip text);
                (s', success) = remove_partner s username
            in Inr (if success then PartnerDeleted username else NotAPartner username,
                    s', state_clear)))"

definition users_search_process ::
  "int list \<Rightarrow> store \<Rightarrow> fsm_ctx \<Rightarrow> int \<Rightarrow> string \<Rightarrow> handler_result"
where
  "users_search_process admin_ids s ctx from_id text =
     (if \<not> is_admin admin_ids from_id then Inr (NoAccess, s, state_clear)
      else (let query = py_strip text
            in case search_users s query of
                 Inl e \<Rightarrow> Inl e
               | Inr found \<Rightarrow>
                   Inr (if found = [] then SearchNotFound query
                        else SearchResults query (int (length found)) (take 15 found),
                        s, state_clear)))"

definition purchase_user_input ::
  "int list \<Rightarrow> store \<Rightarrow> fsm_ctx \<Rightarrow> int \<Rightarrow> string \<Rightarrow> handler_result"
where
  "purchase_user_input admin_ids s ctx from_id text =
     (if \<not> is_admin admin_ids from_id then Inr (NoAccess, s, state_clear)
      else (let user_input = py_strip text
            in case get_user_by_id_or_username s user_input of
                 Inl e \<Rightarrow> Inl e
               | Inr None \<Rightarrow> Inr (UserNotFound, s, ctx)
               | Inr (Some user) \<Rightarrow>
                   Inr (UserFound user, s,
                        ctx\<lparr>ctx_data := (ctx_data ctx)\<lparr>d_user_id := Some (u_user_id user),
                                                        d_username := Some (u_username user),
                                                        d_first_name := Some (u_first_name user)\<rparr>,
                            ctx_state := Some PurchaseStates_waiting_amount\<rparr>)))"

definition purchase_amount_input ::
  "int list \<Rightarrow> store \<Rightarrow> fsm_ctx \<Rightarrow> int \<Rightarrow> string \<Rightarrow> handler_result"
where
  "purchase_amount_input admin_ids s ctx from_id text =
     (if \<not> is_admin admin_ids from_id then Inr (NoAccess, s, state_clear)
      else (case py_float (py_strip text) of
              None \<Rightarrow> Inr (AmountBadFormat, s, ctx)
            | Some amount \<Rightarrow>
                if le_zero amount then Inr (AmountNotPositive, s, ctx)
                else Inr (AmountAccepted amount, s,
                          ctx\<lparr>ctx_data := (ctx_data ctx)\<lparr>d_amount := Some amount\<rparr>,
                              ctx_state := Some PurchaseStates_waiting_comment\<rparr>)))"

definition purchase_comment_input ::
  "int list \<Rightarrow> int \<Rightarrow> store \<Rightarrow> fsm_ctx \<Rightarrow> int \<Rightarrow> string \<Rightarrow> handler_result"
where
  "purchase_comment_input admin_ids now s ctx from_id text =
     (if \<not> is_admin admin_ids from_id then Inr (NoAccess, s, state_clear)
      else (let comment = (if py_strip text = ''-'' then '''' else py_strip text);
                data = ctx_data ctx
            in case d_user_id data of
                 None \<Rightarrow> Inl (KeyError ''user_id'')
               | Some user_id \<Rightarrow>
                   (case d_username data of
                      None \<Rightarrow> Inl (KeyError ''username'')
                    | Some username \<Rightarrow>
                        (case d_first_name data of
                           None \<Rightarrow> Inl (KeyError ''first_name'')
                         | Some first_name \<Rightarrow>
                             (case d_amount data of
                                None \<Rightarrow> Inl (KeyError ''amount'')
                              | Some amount \<Rightarrow>
                                  (let (s', success) = add_purchase now s user_id amount comment
                                   in Inr (if success
                                           then PurchaseAdded first_name username user_id amount
                                                  comment
                                           else PurchaseAddError, s', state_clear)))))))"

text \<open>
  A free-text reply goes to the handler registered for the state of the sender's
  conversation; with no state, none of these handlers takes it. (A command is taken by
  its command handler before; those are not replies of a conversation.)
\<close>

record reply_event =
  ev_from :: int
  ev_text :: string
  ev_now :: int
  ev_code :: string

definition state_handler ::
  "int list \<Rightarrow> fsm_state \<Rightarrow> reply_event \<Rightarrow> store \<Rightarrow> fsm_ctx \<Rightarrow> handler_result"
where
  "state_handler admin_ids st ev s ctx =
     (case st of
        PartnerStates_waiting_username \<Rightarrow>
          partner_add_process admin_ids (ev_now ev) (ev_code ev) s ctx (ev_from ev) (ev_text ev)
      | PartnerStates_waiting_delete_username \<Rightarrow>
          partner_delete_process admin_ids s ctx (ev_from ev) (ev_text ev)
      | UserSearchStates_waiting_query \<Rightarrow>
          users_search_process admin_ids s ctx (ev_from ev) (ev_text ev)
      | PurchaseStates_waiting_user_input \<Rightarrow>
          purchase_user_input admin_ids s ctx (ev_from ev) (ev_text ev)
      | PurchaseStates_waiting_amount \<Rightarrow>
          purchase_amount_input admin_ids s ctx (ev_from ev) (ev_text ev)
      | PurchaseStates_waiting_comment \<Rightarrow>
          purchase_comment_input admin_ids (ev_now ev) s ctx (ev_from ev) (ev_text ev))"

text \<open>
  One reply: the answer (or the exception the handler raised, which leaves store and
  conversation as they were), the store and the conversation afterwards.
\<close>

definition handle_reply ::
  "int list \<Rightarrow> reply_event \<Rightarrow> store \<times> fsm_ctx \<Rightarrow> (error + reply) option \<times> store \<times> fsm_ctx"
where
  "handle_reply admin_ids ev sc =
     (let (s, ctx) = sc
      in case ctx_state ctx of
           None \<Rightarrow> (None, s, ctx)
         | Some st \<Rightarrow>
             (case state_handler admin_ids st ev s ctx of
                Inl e \<Rightarrow> (Some (Inl e), s, ctx)
              | Inr (r, s', ctx') \<Rightarrow> (Some (Inr r), s', ctx')))"

text \<open>A sequence of replies in one conversation, with the answers in order.\<close>

fun run_replies ::
  "int list \<Rightarrow> reply_event list \<Rightarrow> store \<times> fsm_ctx \<Rightarrow>
   (error + reply) option list \<times> store \<times> fsm_ctx"
where
  "run_replies admin_ids [] sc = ([], sc)"
| "run_replies admin_ids (ev # evs) sc =
     (let (r, sc') = handle_reply admin_ids ev sc;
          (rs, sc'') = run_replies admin_ids evs sc'
      in (r # rs, sc''))"

section \<open>A small store for the examples\<close>

text \<open>
  Two partners; account 42 came in through the first partner's link, account 7 without
  a link.
\<close>

definition alice :: user_row where
  "alice = \<lparr>u_user_id = 42, u_username = Some ''alice'', u_first_name = Some ''Alice'',
             u_last_name = None, u_is_subscribed = 1, u_partner_code = None,
             u_registered_at = 1000, u_ref_partner_code = Some ''ABCDEF12''\<rparr>"

definition carol :: user_row where
  "carol = \<lparr>u_user_id = 7, u_username = Some ''carol'', u_first_name = Some ''Carol'',
             u_last_name = Some ''Jones'', u_is_subscribed = 0, u_partner_code = None,
             u_registered_at = 2000, u_ref_partner_code = None\<rparr>"

definition partner_bob :: partner_row where
  "partner_bob = \<lparr>p_partner_code = ''ABCDEF12'', p_username = Some ''bob'',
                   p_user_id = Some 99, p_created_at = 500\<rparr>"

definition partner_dave :: partner_row where
  "partner_dave = \<lparr>p_partner_code = ''ZZZZ9999'', p_username = Some ''dave'',
                    p_user_id = Some 0, p_created_at = 600\<rparr>"

definition store0 :: store where
  "store0 = \<lparr>users = [alice, carol], partners = [partner_bob, partner_dave],
              purchases = [], purchases_seq = 0\<rparr>"

text \<open>
  Four accounts that came in through the first partner's link: 10000 seconds, 2 days,
  10 days and 40 days before the instant 10000000.
\<close>

definition referred :: "int \<Rightarrow> int \<Rightarrow> user_row" where
  "referred uid t = \<lparr>u_user_id = uid, u_username = None, u_first_name = Some ''N'',
                      u_last_name = None, u_is_subscribed = 0, u_partner_code = None,
                      u_registered_at = t, u_ref_partner_code = Some ''ABCDEF12''\<rparr>"

definition stats_store :: store where
  "stats_store = \<lparr>users = [referred 1 9990000, referred 2 9827200, referred 3 9136000,
                           referred 4 6544000, carol],
                  partners = [partner_bob], purchases = [], purchases_seq = 0\<rparr>"

definition outsider_reply :: reply_event where
  "outsider_reply = \<lparr>ev_from = 5, ev_text = ''bob'', ev_now = 7000, ev_code = ''QQQQ1111''\<rparr>"

definition awaiting :: "fsm_state \<Rightarrow> fsm_ctx" where
  "awaiting st = \<lparr>ctx_state = Some st, ctx_data = no_data\<rparr>"

definition admin_reply :: "string \<Rightarrow> int \<Rightarrow> reply_event" where
  "admin_reply txt t = \<lparr>ev_from = 1, ev_text = txt, ev_now = t, ev_code = ''QQQQ1111''\<rparr>"

definition amount_ctx :: fsm_ctx where
  "amount_ctx = \<lparr>ctx_state = Some PurchaseStates_waiting_amount,
                  ctx_data = \<lparr>d_user_id = Some 42, d_username = Some (Some ''alice''),
                               d_first_name = Some (Some ''Alice''), d_amount = None\<rparr>\<rparr>"

text \<open>An account whose handle is a digit string, next to the account with id 42.\<close>

definition numeric_handle :: user_row where
  "numeric_handle = \<lparr>u_user_id = 9, u_username = Some ''42'', u_first_name = Some ''Nine'',
                      u_last_name = None, u_is_subscribed = 0, u_partner_code = None,
                      u_registered_at = 3000, u_ref_partner_code = None\<rparr>"

definition digits_store :: store where
  "digits_store = \<lparr>users = [alice, numeric_handle], partners = [], purchases = [],
                    purchases_seq = 0\<rparr>"

text \<open>Whether a keyboard offers a button.\<close>

definition has_button :: "button \<Rightarrow> button list list \<Rightarrow> bool" where
  "has_button b kb = (b \<in> set (concat kb))"

text \<open>A store with forty users and no purchases.\<close>

definition big_store :: store where
  "big_store = \<lparr>users = map (\<lambda>i. referred (int i) (int i)) [0..<40], partners = [partner_bob],
                 purchases = [], purchases_seq = 0\<rparr>"

section \<open>Properties\<close>

subsection \<open>Registration is first-touch\<close>

lemma add_user_existing:
  "\<exists>u \<in> set (users s). u_user_id u = uid \<Longrightarrow> add_user now s uid un fnm lnm rc = s"
  by (auto simp: add_user_def find_None_iff)

lemma users_update_partner_user_id [simp]:
  "users (update_partner_user_id s un uid) = users s"
  by (simp add: update_partner_user_id_def)

lemma add_user_row_exists:
  "\<exists>u \<in> set (users (add_user now s uid un fnm lnm rc)). u_user_id u = uid"
  by (auto simp: add_user_def find_None_iff Let_def)

lemma start_register_users:
  "users (fst (start_register now s uid un fnm lnm txt)) =
   users (add_user now s uid un fnm lnm (fst (start_ref_code s txt)))"
  by (simp add: start_register_def Let_def split: prod.splits)

lemma start_register_row_exists:
  "\<exists>u \<in> set (users (fst (start_register now s uid un fnm lnm txt))). u_user_id u = uid"
  unfolding start_register_users by (rule add_user_row_exists)

lemma update_subscription_masked:
  "map (\<lambda>u. u\<lparr>u_is_subscribed := 0\<rparr>) (users (update_subscription s uid b)) =
   map (\<lambda>u. u\<lparr>u_is_subscribed := 0\<rparr>) (users s)"
  by (simp add: update_subscription_def)

text \<open>
  The subscription record that follows registration in the same handler rewrites the
  subscription flag and nothing else: with the flag masked, the rows of an account that
  was already registered are the same after the whole handler.
\<close>

lemma cmd_start_keeps_fields:
  assumes "\<exists>u \<in> set (users s). u_user_id u = uid"
  shows "map (\<lambda>u. u\<lparr>u_is_subscribed := 0\<rparr>)
           (users (fst (snd (cmd_start now oracle s uid un fnm lnm txt)))) =
         map (\<lambda>u. u\<lparr>u_is_subscribed := 0\<rparr>) (users s)"
proof -
  have reg: "users (fst (start_register now s uid un fnm lnm txt)) = users s"
    unfolding start_register_users using assms by (simp add: add_user_existing)
  have "fst (snd (cmd_start now oracle s uid un fnm lnm txt)) =
        update_subscription (fst (start_register now s uid un fnm lnm txt)) uid
          (check_subscription oracle)"
    by (simp add: cmd_start_def Let_def split: prod.splits)
  then show ?thesis
    by (simp add: update_subscription_masked reg)
qed

text \<open>
  C1. Once a row for an account id exists, the registration path of the start command
  (parsing the referral argument, \<^verbatim>\<open>add_user\<close>, the partner link) leaves the users table
  as it is, whatever handle, names and start argument the later call carries: no field
  of the account's row changes, the attributing partner code included. The same holds of
  \<^verbatim>\<open>add_user\<close> alone, which returns the store unchanged.
\<close>

theorem registration_first_touch:
  assumes "\<exists>u \<in> set (users s). u_user_id u = uid"
  shows "users (fst (start_register now s uid un fnm lnm txt)) = users s
         \<and> add_user now s uid un fnm lnm rc = s"
  unfolding start_register_users using assms by (simp add: add_user_existing)

theorem registration_first_touch_witness:
  "(\<exists>u \<in> set (users store0). u_user_id u = 42)
   \<and> users (fst (start_register 5000 store0 42 (Some ''dave'') (Some ''D'') None
                  ''/start ref_ZZZZ9999'')) = users store0
   \<and> add_user 5000 store0 42 (Some ''dave'') (Some ''D'') None (Some ''ZZZZ9999'') = store0"
proof -
  have h: "\<exists>u \<in> set (users store0). u_user_id u = 42"
    by (simp add: store0_def alice_def)
  show ?thesis
    using h registration_first_touch [OF h] by simp
qed

subsection \<open>Referral codes that no partner has\<close>

lemma strip_ref_prefix:
  "py_replace ''ref_'' '''' (CHR ''r'' # CHR ''e'' # CHR ''f'' # CHR ''_'' # code)
     = py_replace ''ref_'' '''' code"
  by (subst py_replace.simps) simp

text \<open>
  When the text after the prefix \<^verbatim>\<open>ref_\<close> does not itself contain \<^verbatim>\<open>ref_\<close> (no code over
  the partner alphabet does) and no partner has it as code, a first contact is registered
  without attribution and the code is logged as a warning.
\<close>

lemma unknown_code_registers:
  assumes "1 < length (py_split txt)"
    and "py_split txt ! 1 = ''ref_'' @ code"
    and "py_replace ''ref_'' '''' code = code"
    and "get_partner_by_code s code = None"
    and "\<forall>u \<in> set (users s). u_user_id u \<noteq> uid"
  shows "start_ref_code s txt = (None, [WarnBadRefCode code])
         \<and> users (fst (start_register now s uid un fnm lnm txt))
             = users s @ [\<lparr>u_user_id = uid, u_username = un, u_first_name = fnm,
                            u_last_name = lnm, u_is_subscribed = 0, u_partner_code = None,
                            u_registered_at = now, u_ref_partner_code = None\<rparr>]"
proof -
  have code: "start_ref_code s txt = (None, [WarnBadRefCode code])"
    using assms(1-4)
    by (simp add: start_ref_code_def py_startswith_def strip_ref_prefix Let_def)
  have new: "find (\<lambda>u. u_user_id u = uid) (users s) = None"
    using assms(5) by (simp add: find_None_iff)
  show ?thesis
    unfolding start_register_users using new by (simp add: code add_user_def)
qed

lemma split_start_nested:
  "py_split ''/start ref_ref_ABCDEF12'' = [''/start'', ''ref_ref_ABCDEF12'']"
  by (simp add: py_split_def is_space_def)

lemma replace_nested: "py_replace ''ref_'' '''' ''ref_ref_ABCDEF12'' = ''ABCDEF12''"
  by (simp add: py_replace.simps)

text \<open>
  C2 fails on the code. The start argument \<^verbatim>\<open>ref_ref_ABCDEF12\<close> is the prefix \<^verbatim>\<open>ref_\<close>
  followed by the code \<^verbatim>\<open>ref_ABCDEF12\<close>, which no partner has. The handler removes every
  occurrence of \<^verbatim>\<open>ref_\<close>, not the prefix only, looks up \<^verbatim>\<open>ABCDEF12\<close>, finds the first
  partner, and registers the new account 8 as referred by that partner.
\<close>

theorem nested_prefix_attributed:
  "get_partner_by_code store0 ''ref_ABCDEF12'' = None
   \<and> start_ref_code store0 ''/start ref_ref_ABCDEF12''
       = (Some ''ABCDEF12'', [InfoPartnerFound ''ABCDEF12''])
   \<and> users (fst (start_register 5000 store0 8 None (Some ''Eve'') None ''/start ref_ref_ABCDEF12''))
       = [alice, carol,
          \<lparr>u_user_id = 8, u_username = None, u_first_name = Some ''Eve'', u_last_name = None,
            u_is_subscribed = 0, u_partner_code = None, u_registered_at = 5000,
            u_ref_partner_code = Some ''ABCDEF12''\<rparr>]"
proof -
  have none: "get_partner_by_code store0 ''ref_ABCDEF12'' = None"
    by (simp add: get_partner_by_code_def store0_def partner_bob_def partner_dave_def)
  have code: "start_ref_code store0 ''/start ref_ref_ABCDEF12''
                = (Some ''ABCDEF12'', [InfoPartnerFound ''ABCDEF12''])"
    by (simp add: start_ref_code_def split_start_nested py_startswith_def replace_nested
        get_partner_by_code_def store0_def partner_bob_def Let_def)
  have reg: "users (add_user 5000 store0 8 None (Some ''Eve'') None (Some ''ABCDEF12''))
               = [alice, carol,
                  \<lparr>u_user_id = 8, u_username = None, u_first_name = Some ''Eve'',
                    u_last_name = None, u_is_subscribed = 0, u_partner_code = None,
                    u_registered_at = 5000, u_ref_partner_code = Some ''ABCDEF12''\<rparr>]"
    by (simp add: add_user_def store0_def alice_def carol_def)
  show ?thesis
    unfolding start_register_users by (simp add: none code reg)
qed

text \<open>An unknown code over the partner alphabet: the scenario of the spec.\<close>

lemma split_start_unknown:
  "py_split ''/start ref_QQQQ0000'' = [''/start'', ''ref_QQQQ0000'']"
  by (simp add: py_split_def is_space_def)

lemma replace_plain: "py_replace ''ref_'' '''' ''QQQQ0000'' = ''QQQQ0000''"
  by (simp add: py_replace.simps)

lemma unknown_code_example:
  "start_ref_code store0 ''/start ref_QQQQ0000'' = (None, [WarnBadRefCode ''QQQQ0000''])
   \<and> users (fst (start_register 5000 store0 8 None (Some ''Eve'') None ''/start ref_QQQQ0000''))
       = users store0 @
          [\<lparr>u_user_id = 8, u_username = None, u_first_name = Some ''Eve'', u_last_name = None,
            u_is_subscribed = 0, u_partner_code = None, u_registered_at = 5000,
            u_ref_partner_code = None\<rparr>]"
proof (rule unknown_code_registers [where code = "''QQQQ0000''"])
  show "1 < length (py_split ''/start ref_QQQQ0000'')"
    by (simp add: split_start_unknown)
  show "py_split ''/start ref_QQQQ0000'' ! 1 = ''ref_'' @ ''QQQQ0000''"
    by (simp add: split_start_unknown)
  show "py_replace ''ref_'' '''' ''QQQQ0000'' = ''QQQQ0000''"
    by (rule replace_plain)
  show "get_partner_by_code store0 ''QQQQ0000'' = None"
    by (simp add: get_partner_by_code_def store0_def partner_bob_def partner_dave_def)
  show "\<forall>u \<in> set (users store0). u_user_id u \<noteq> 8"
    by (simp add: store0_def alice_def carol_def)
qed

subsection \<open>Partner statistics\<close>

lemma length_filter_mono:
  assumes "\<And>x. x \<in> set xs \<Longrightarrow> P x \<Longrightarrow> Q x"
  shows "length (filter P xs) \<le> length (filter Q xs)"
  using assms by (induction xs) auto

lemma count_ref_since_antimono:
  "a \<le> b \<Longrightarrow> count_ref_since s c b \<le> count_ref_since s c a"
  unfolding count_ref_since_def by (auto intro!: length_filter_mono)

lemma count_ref_since_le_all:
  "count_ref_since s c a \<le> int (length (filter (\<lambda>u. u_ref_partner_code u = Some c) (users s)))"
  unfolding count_ref_since_def by (auto intro!: length_filter_mono)

lemma week_before_start_of_day: "now - 7 * 86400 \<le> start_of_day now"
proof -
  have "now mod 86400 < 86400"
    by simp
  then show ?thesis
    unfolding start_of_day_def by linarith
qed

text \<open>
  C3. For every partner code, store and instant, the four counts of the stats operation
  are ordered: today \<open>\<le>\<close> week \<open>\<le>\<close> month \<open>\<le>\<close> total. The windows are nested: the start of
  the current day is not before now minus 7 days, which is not before now minus 30 days.
\<close>

theorem stats_windows_nested:
  "st_today (get_partner_stats s now c) \<le> st_week (get_partner_stats s now c)
   \<and> st_week (get_partner_stats s now c) \<le> st_month (get_partner_stats s now c)
   \<and> st_month (get_partner_stats s now c) \<le> st_total (get_partner_stats s now c)"
  using week_before_start_of_day [of now]
  by (simp add: get_partner_stats_def count_ref_since_antimono count_ref_since_le_all)

theorem stats_windows_nested_witness:
  "get_partner_stats stats_store 10000000 ''ABCDEF12''
     = \<lparr>st_today = 1, st_week = 2, st_month = 3, st_total = 4\<rparr>
   \<and> st_today (get_partner_stats stats_store 10000000 ''ABCDEF12'')
       \<le> st_week (get_partner_stats stats_store 10000000 ''ABCDEF12'')
   \<and> st_week (get_partner_stats stats_store 10000000 ''ABCDEF12'')
       \<le> st_month (get_partner_stats stats_store 10000000 ''ABCDEF12'')
   \<and> st_month (get_partner_stats stats_store 10000000 ''ABCDEF12'')
       \<le> st_total (get_partner_stats stats_store 10000000 ''ABCDEF12'')"
  using stats_windows_nested [of stats_store 10000000 "''ABCDEF12''"]
  by (simp add: get_partner_stats_def count_ref_since_def start_of_day_def stats_store_def
      referred_def carol_def)

subsection \<open>Replies from accounts that are not administrators\<close>

text \<open>
  C4. In each of the six conversation states, a free-text reply from an account outside
  the administrator list is answered with "no access", the conversation is cleared (no
  state, no data), and the store is returned as it was: no partner row is added or
  deleted and no purchase row is inserted.
\<close>

theorem non_admin_reply_rejected:
  assumes "\<not> is_admin admin_ids (ev_from ev)"
  shows "state_handler admin_ids st ev s ctx = Inr (NoAccess, s, state_clear)
         \<and> (ctx_state ctx = Some st \<longrightarrow>
              handle_reply admin_ids ev (s, ctx) = (Some (Inr NoAccess), s, state_clear))"
proof -
  have h: "state_handler admin_ids st ev s ctx = Inr (NoAccess, s, state_clear)"
    using assms
    by (cases st)
      (simp_all add: state_handler_def partner_add_process_def partner_delete_process_def
        users_search_process_def purchase_user_input_def purchase_amount_input_def
        purchase_comment_input_def)
  then show ?thesis
    by (simp add: handle_reply_def)
qed

theorem non_admin_reply_rejected_witness:
  "\<not> is_admin [1, 2] (ev_from outsider_reply)
   \<and> handle_reply [1, 2] outsider_reply
        (store0, \<lparr>ctx_state = Some PartnerStates_waiting_delete_username, ctx_data = no_data\<rparr>)
      = (Some (Inr NoAccess), store0, state_clear)"
proof -
  have h: "\<not> is_admin [1, 2] (ev_from outsider_reply)"
    by (simp add: is_admin_def outsider_reply_def)
  show ?thesis
    using h non_admin_reply_rejected [OF h, of PartnerStates_waiting_delete_username store0
        "\<lparr>ctx_state = Some PartnerStates_waiting_delete_username, ctx_data = no_data\<rparr>"]
    by simp
qed

subsection \<open>Pagination\<close>

lemma nav_users_prev:
  "has_button (BtnUsersPage (page - 1)) (nav_buttons BtnUsersPage page limit n @ [[BtnUsersSearch], [BtnAdminMenu]])
     = (0 < page \<and> limit < n)"
  by (simp add: has_button_def nav_buttons_def Let_def)

lemma nav_users_next:
  "has_button (BtnUsersPage (page + 1)) (nav_buttons BtnUsersPage page limit n @ [[BtnUsersSearch], [BtnAdminMenu]])
     = ((page + 1) * limit < n \<and> limit < n)"
  by (simp add: has_button_def nav_buttons_def Let_def)

lemma nav_purchases_prev:
  "has_button (BtnPurchasesPage (page - 1))
     (nav_buttons BtnPurchasesPage page limit n @ [[BtnPurchaseAdd], [BtnAdminPurchases]])
     = (0 < page \<and> limit < n)"
  by (simp add: has_button_def nav_buttons_def Let_def)

lemma nav_purchases_next:
  "has_button (BtnPurchasesPage (page + 1))
     (nav_buttons BtnPurchasesPage page limit n @ [[BtnPurchaseAdd], [BtnAdminPurchases]])
     = ((page + 1) * limit < n \<and> limit < n)"
  by (simp add: has_button_def nav_buttons_def Let_def)

text \<open>
  The claim as the spec states it fails on the previous-page control: with two users,
  page index 1 is shown without it.
\<close>

theorem prev_control_counterexample:
  "0 < (1::int)
   \<and> show_users_page store0 1 None
       = Inr \<lparr>pv_rows = [], pv_total = 2, pv_page = 1,
              pv_keyboard = [[BtnUsersSearch], [BtnAdminMenu]]\<rparr>
   \<and> \<not> has_button (BtnUsersPage (1 - 1)) [[BtnUsersSearch], [BtnAdminMenu]]"
  by (simp add: show_users_page_def py_truthy_def get_all_users_def in_int64_def
      sql_limit_offset_def nav_buttons_def has_button_def store0_def Let_def)

text \<open>
  C5, amended. For a page index \<open>\<ge> 0\<close> whose offset fits the store's 64-bit integers
  (page index times 15 below \<open>2 ^ 63\<close>), the users view (page size 15) and, for an
  administrator, the purchases view (page size 10) show the rows from offset page index
  times page size on, at most a page of them, of the listing ordered newest first. The
  next-page control is offered iff (page index + 1) times page size is less than the
  total. The previous-page control is offered iff the page index is positive and the
  total is more than one page: the pagination buttons are built only when the total
  exceeds the page size.
\<close>

theorem page_controls:
  assumes "0 \<le> page" and "page * 15 < 2 ^ 63"
  shows "(\<exists>v. show_users_page s page None = Inr v
            \<and> pv_rows v = map (join_partner s)
                 (take 15 (drop (nat (page * 15)) (sort_key (\<lambda>u. - u_registered_at u) (users s))))
            \<and> pv_total v = int (length (users s))
            \<and> has_button (BtnUsersPage (page - 1)) (pv_keyboard v)
                = (0 < page \<and> 15 < pv_total v)
            \<and> has_button (BtnUsersPage (page + 1)) (pv_keyboard v)
                = ((page + 1) * 15 < pv_total v))
         \<and> (is_admin admin_ids uid \<longrightarrow>
             (\<exists>v. show_purchases_page admin_ids s uid page = Inr (Shown v)
               \<and> pv_rows v = map (join_purchase s)
                    (take 10 (drop (nat (page * 10))
                       (sort_key (\<lambda>p. - pu_created_at p) (purchases s))))
               \<and> pv_total v = int (length (purchases s))
               \<and> has_button (BtnPurchasesPage (page - 1)) (pv_keyboard v)
                   = (0 < page \<and> 10 < pv_total v)
               \<and> has_button (BtnPurchasesPage (page + 1)) (pv_keyboard v)
                   = ((page + 1) * 10 < pv_total v)))"
proof -
  have r15: "in_int64 15 \<and> in_int64 (page * 15)"
    using assms by (simp add: in_int64_def)
  have r10: "in_int64 10 \<and> in_int64 (page * 10)"
    using assms by (simp add: in_int64_def)
  have u: "show_users_page s page None
      = Inr \<lparr>pv_rows = map (join_partner s)
                 (take 15 (drop (nat (page * 15)) (sort_key (\<lambda>u. - u_registered_at u) (users s)))),
             pv_total = int (length (users s)), pv_page = page,
             pv_keyboard = nav_buttons BtnUsersPage page 15 (int (length (users s)))
                           @ [[BtnUsersSearch], [BtnAdminMenu]]\<rparr>"
    using r15
    by (simp add: show_users_page_def py_truthy_def get_all_users_def sql_limit_offset_def Let_def)
  have p: "show_purchases_page admin_ids s uid page
      = Inr (Shown \<lparr>pv_rows = map (join_purchase s)
                 (take 10 (drop (nat (page * 10)) (sort_key (\<lambda>p. - pu_created_at p) (purchases s)))),
             pv_total = int (length (purchases s)), pv_page = page,
             pv_keyboard = nav_buttons BtnPurchasesPage page 10 (int (length (purchases s)))
                           @ [[BtnPurchaseAdd], [BtnAdminPurchases]]\<rparr>)"
    if "is_admin admin_ids uid"
    using r10 that
    by (simp add: show_purchases_page_def get_all_purchases_def sql_limit_offset_def Let_def)
  have users_part: "\<exists>v. show_users_page s page None = Inr v
            \<and> pv_rows v = map (join_partner s)
                 (take 15 (drop (nat (page * 15)) (sort_key (\<lambda>u. - u_registered_at u) (users s))))
            \<and> pv_total v = int (length (users s))
            \<and> has_button (BtnUsersPage (page - 1)) (pv_keyboard v)
                = (0 < page \<and> 15 < pv_total v)
            \<and> has_button (BtnUsersPage (page + 1)) (pv_keyboard v)
                = ((page + 1) * 15 < pv_total v)"
    using assms(1) unfolding u by (auto simp: nav_users_prev nav_users_next)
  have purchases_part: "\<exists>v. show_purchases_page admin_ids s uid page = Inr (Shown v)
               \<and> pv_rows v = map (join_purchase s)
                    (take 10 (drop (nat (page * 10))
                       (sort_key (\<lambda>p. - pu_created_at p) (purchases s))))
               \<and> pv_total v = int (length (purchases s))
               \<and> has_button (BtnPurchasesPage (page - 1)) (pv_keyboard v)
                   = (0 < page \<and> 10 < pv_total v)
               \<and> has_button (BtnPurchasesPage (page + 1)) (pv_keyboard v)
                   = ((page + 1) * 10 < pv_total v)"
    if "is_admin admin_ids uid"
    using assms(1) unfolding p [OF that] by (auto simp: nav_purchases_prev nav_purchases_next)
  from users_part purchases_part show ?thesis
    by blast
qed

lemma big_store_total: "int (length (users big_store)) = 40"
  by (simp add: big_store_def)

theorem page_controls_witness:
  "(0::int) \<le> 1 \<and> (1::int) * 15 < 2 ^ 63
   \<and> (\<exists>v. show_users_page big_store 1 None = Inr v
          \<and> pv_total v = 40
          \<and> has_button (BtnUsersPage 0) (pv_keyboard v)
          \<and> has_button (BtnUsersPage 2) (pv_keyboard v))
   \<and> is_admin [1, 2] 1
   \<and> (\<exists>v. show_purchases_page [1, 2] big_store 1 1 = Inr (Shown v)
          \<and> pv_total v = 0
          \<and> \<not> has_button (BtnPurchasesPage 0) (pv_keyboard v)
          \<and> \<not> has_button (BtnPurchasesPage 2) (pv_keyboard v))"
proof -
  have a: "(0::int) \<le> 1" and b: "(1::int) * 15 < 2 ^ 63"
    by simp_all
  have c: "is_admin [1, 2] 1"
    by (simp add: is_admin_def)
  have d: "int (length (purchases big_store)) = 0"
    by (simp add: big_store_def)
  show ?thesis
    using a b c page_controls [OF a b, of big_store "[1, 2]" 1]
    by (auto simp: big_store_total d)
qed

text \<open>
  Beyond that range the offset cannot be bound to the statement: the view is not shown.
\<close>

lemma huge_page_not_shown:
  "show_users_page big_store 614891469123651721 None = Inl OverflowError"
  by (simp add: show_users_page_def py_truthy_def get_all_users_def in_int64_def Let_def)

text \<open>
  A filtered listing is cut to the page by slicing the full search result at the same
  offset.
\<close>

lemma py_slice_page:
  assumes "0 \<le> a" and "0 \<le> k"
  shows "py_slice xs a (a + k) = take (nat k) (drop (nat a) xs)"
proof -
  have k: "nat (a + k) - nat a = nat k"
    using assms by (simp add: nat_add_distrib)
  show ?thesis
  proof (cases "a + k \<le> int (length xs)")
    case True
    then show ?thesis
      using assms by (simp add: py_slice_def Let_def min_def k nat_diff_distrib)
  next
    case False
    then have "length (drop (nat a) xs) \<le> nat k"
      using assms by simp
    then have "take (nat k) (drop (nat a) xs) = drop (nat a) xs"
      by (rule take_all)
    then show ?thesis
      using assms False by (simp add: py_slice_def Let_def min_def nat_diff_distrib)
  qed
qed

subsection \<open>The amount step of the add-purchase flow\<close>

text \<open>
  What the amount step refuses. When \<^verbatim>\<open>float\<close> raises \<^verbatim>\<open>ValueError\<close> on the
  administrator's text, or the value is \<open>\<le> 0\<close>, the reply is answered with a prompt to
  try again, and the conversation (its state, awaiting the amount, and its data) and the
  store are as before: no purchase row is created.
\<close>

lemma bad_amount_reprompts:
  assumes admin: "is_admin admin_ids (ev_from ev)"
    and st: "ctx_state ctx = Some PurchaseStates_waiting_amount"
    and bad: "py_float (py_strip (ev_text ev)) = None
              \<or> (\<exists>a. py_float (py_strip (ev_text ev)) = Some a \<and> le_zero a)"
  shows "handle_reply admin_ids ev (s, ctx)
           = (Some (Inr (if py_float (py_strip (ev_text ev)) = None then AmountBadFormat
                         else AmountNotPositive)), s, ctx)"
  using assms
  by (auto simp: handle_reply_def state_handler_def purchase_amount_input_def)

lemma float_abc: "py_float (py_strip ''abc'') = None"
  by (simp add: py_float_def py_strip_def is_space_def num_strip_def is_num_space_def is_digit_def
      split_sign_def ascii_lower_def parse_exponent_def digits_nat_def digit_val_def rpow_def
      Let_def)

lemma unparsable_amount_reprompts:
  "handle_reply [1, 2] (admin_reply ''abc'' 7000) (store0, amount_ctx)
     = (Some (Inr AmountBadFormat), store0, amount_ctx)"
  by (simp add: handle_reply_def state_handler_def purchase_amount_input_def amount_ctx_def
      admin_reply_def is_admin_def float_abc)

lemma floor_log2_3: "floor_log2 3 = 1"
  by (simp add: floor_log2.simps)

lemma round_binary64_neg_3: "round_binary64 (- 3) = Finite (- 3)"
  by (simp add: round_binary64_def floor_log2_3 rpow_def round_half_even_def Let_def)

lemma float_neg_3: "py_float (py_strip ''-3'') = Some (Finite (- 3))"
  by (simp add: py_float_def py_strip_def is_space_def num_strip_def is_num_space_def is_digit_def
      split_sign_def ascii_lower_def parse_exponent_def digits_nat_def digit_val_def rpow_def
      round_binary64_neg_3 Let_def)

lemma negative_amount_reprompts:
  "handle_reply [1, 2] (admin_reply ''-3'' 7000) (store0, amount_ctx)
     = (Some (Inr AmountNotPositive), store0, amount_ctx)"
  by (simp add: handle_reply_def state_handler_def purchase_amount_input_def amount_ctx_def
      admin_reply_def is_admin_def float_neg_3 le_zero_def)

lemma float_nan: "py_float (py_strip ''nan'') = Some NaN"
  by (simp add: py_float_def py_strip_def is_space_def num_strip_def is_num_space_def is_digit_def
      split_sign_def ascii_lower_def Let_def)

text \<open>
  C6 fails on the code. The text \<^verbatim>\<open>nan\<close> does not parse as a number: \<^verbatim>\<open>float\<close> accepts it
  and gives not-a-number. The test \<^verbatim>\<open>amount <= 0\<close> is false of that value, so the amount
  step does not prompt again: it answers that the amount is accepted, stores the value
  in the conversation data, and moves the conversation on to the comment step.
\<close>

theorem nan_amount_accepted:
  "py_float (py_strip ''nan'') = Some NaN
   \<and> \<not> le_zero NaN
   \<and> handle_reply [1, 2] (admin_reply ''nan'' 7000) (store0, amount_ctx)
       = (Some (Inr (AmountAccepted NaN)), store0,
          amount_ctx\<lparr>ctx_data := (ctx_data amount_ctx)\<lparr>d_amount := Some NaN\<rparr>,
                     ctx_state := Some PurchaseStates_waiting_comment\<rparr>)"
  by (simp add: handle_reply_def state_handler_def purchase_amount_input_def amount_ctx_def
      admin_reply_def is_admin_def float_nan le_zero_def)

subsection \<open>The add-purchase flow, end to end\<close>

lemma floor_log2_15_5: "floor_log2 (31 / 2) = 3"
  by (simp add: floor_log2.simps)

lemma round_binary64_15_5: "round_binary64 (31 / 2) = Finite (31 / 2)"
  by (simp add: round_binary64_def floor_log2_15_5 rpow_def round_half_even_def Let_def)

lemma float_15_5: "py_float (py_strip ''15.5'') = Some (Finite (31 / 2))"
  by (simp add: py_float_def py_strip_def is_space_def num_strip_def is_num_space_def is_digit_def split_sign_def ascii_lower_def
      parse_exponent_def digits_nat_def digit_val_def rpow_def round_binary64_15_5 Let_def)

lemma strip_dash: "py_strip ''-'' = ''-''"
  by (simp add: py_strip_def is_space_def)

lemma resolved_user_exists:
  assumes "get_user_by_id_or_username s q = Inr (Some u)"
  shows "u \<in> set (users s)"
  using assms
  by (auto simp: get_user_by_id_or_username_def find_Some_iff split: option.splits if_splits)

text \<open>
  C7. An administrator completes the add-purchase flow with an identifier that resolves
  to a user, the amount text \<open>15.5\<close> and the comment text \<open>-\<close>. The three replies are
  answered in turn (user found, amount accepted, purchase added); the store afterwards
  is the store before with exactly one purchase row appended, which refers to the
  resolved user and has amount 15.5 and the empty comment; the conversation is back in
  the idle state with no data. The resolved user is a row of the users table.
\<close>

theorem purchase_flow_commits_one_row:
  assumes admin: "is_admin admin_ids uid"
    and st: "ctx_state ctx = Some PurchaseStates_waiting_user_input"
    and res: "get_user_by_id_or_username s (py_strip ident) = Inr (Some u)"
  shows "run_replies admin_ids
           [\<lparr>ev_from = uid, ev_text = ident, ev_now = t1, ev_code = c1\<rparr>,
            \<lparr>ev_from = uid, ev_text = ''15.5'', ev_now = t2, ev_code = c2\<rparr>,
            \<lparr>ev_from = uid, ev_text = ''-'', ev_now = t3, ev_code = c3\<rparr>] (s, ctx)
         = ([Some (Inr (UserFound u)),
             Some (Inr (AmountAccepted (Finite (31 / 2)))),
             Some (Inr (PurchaseAdded (u_first_name u) (u_username u) (u_user_id u)
                          (Finite (31 / 2)) ''''))],
            s\<lparr>purchases := purchases s @
                 [\<lparr>pu_id = purchases_seq s + 1, pu_user_id = u_user_id u,
                   pu_amount = Finite (31 / 2), pu_comment = '''', pu_created_at = t3\<rparr>],
               purchases_seq := purchases_seq s + 1\<rparr>,
            state_clear)
         \<and> u \<in> set (users s)"
proof -
  let ?e1 = "\<lparr>ev_from = uid, ev_text = ident, ev_now = t1, ev_code = c1\<rparr>"
  let ?e2 = "\<lparr>ev_from = uid, ev_text = ''15.5'', ev_now = t2, ev_code = c2\<rparr>"
  let ?e3 = "\<lparr>ev_from = uid, ev_text = ''-'', ev_now = t3, ev_code = c3\<rparr>"
  have s1: "handle_reply admin_ids ?e1 (s, ctx)
              = (Some (Inr (UserFound u)), s,
                 ctx\<lparr>ctx_data := (ctx_data ctx)\<lparr>d_user_id := Some (u_user_id u),
                                                 d_username := Some (u_username u),
                                                 d_first_name := Some (u_first_name u)\<rparr>,
                     ctx_state := Some PurchaseStates_waiting_amount\<rparr>)"
    using admin st res
    by (simp add: handle_reply_def state_handler_def purchase_user_input_def)
  have s2: "handle_reply admin_ids ?e2 (s, c)
              = (Some (Inr (AmountAccepted (Finite (31 / 2)))), s,
                 c\<lparr>ctx_data := (ctx_data c)\<lparr>d_amount := Some (Finite (31 / 2))\<rparr>,
                   ctx_state := Some PurchaseStates_waiting_comment\<rparr>)"
    if "ctx_state c = Some PurchaseStates_waiting_amount" for c
    using admin that
    by (simp add: handle_reply_def state_handler_def purchase_amount_input_def float_15_5
        le_zero_def)
  have s3: "handle_reply admin_ids ?e3 (s, c)
              = (Some (Inr (PurchaseAdded (u_first_name u) (u_username u) (u_user_id u)
                              (Finite (31 / 2)) '''')),
                 s\<lparr>purchases := purchases s @
                      [\<lparr>pu_id = purchases_seq s + 1, pu_user_id = u_user_id u,
                        pu_amount = Finite (31 / 2), pu_comment = '''', pu_created_at = t3\<rparr>],
                    purchases_seq := purchases_seq s + 1\<rparr>,
                 state_clear)"
    if "ctx_state c = Some PurchaseStates_waiting_comment"
      and "d_user_id (ctx_data c) = Some (u_user_id u)"
      and "d_username (ctx_data c) = Some (u_username u)"
      and "d_first_name (ctx_data c) = Some (u_first_name u)"
      and "d_amount (ctx_data c) = Some (Finite (31 / 2))" for c
    using admin that
    by (simp add: handle_reply_def state_handler_def purchase_comment_input_def strip_dash
        add_purchase_def)
  have mem: "u \<in> set (users s)"
    using res by (rule resolved_user_exists)
  show ?thesis
    using mem by (simp add: s1 s2 s3)
qed

lemma resolve_42: "get_user_by_id_or_username store0 (py_strip ''42'') = Inr (Some alice)"
  by (simp add: get_user_by_id_or_username_def py_int_def py_strip_def is_space_def num_strip_def is_num_space_def is_digit_def
      split_sign_def digits_nat_def digit_val_def in_int64_def store0_def alice_def)

theorem purchase_flow_commits_one_row_witness:
  "is_admin [1, 2] 1
   \<and> ctx_state (awaiting PurchaseStates_waiting_user_input) = Some PurchaseStates_waiting_user_input
   \<and> get_user_by_id_or_username store0 (py_strip ''42'') = Inr (Some alice)
   \<and> snd (run_replies [1, 2]
        [\<lparr>ev_from = 1, ev_text = ''42'', ev_now = 7000, ev_code = ''''\<rparr>,
         \<lparr>ev_from = 1, ev_text = ''15.5'', ev_now = 7010, ev_code = ''''\<rparr>,
         \<lparr>ev_from = 1, ev_text = ''-'', ev_now = 7020, ev_code = ''''\<rparr>]
        (store0, awaiting PurchaseStates_waiting_user_input))
     = (store0\<lparr>purchases :=
                 [\<lparr>pu_id = 1, pu_user_id = 42, pu_amount = Finite (31 / 2), pu_comment = '''',
                   pu_created_at = 7020\<rparr>],
               purchases_seq := 1\<rparr>, state_clear)"
proof -
  have a: "is_admin [1, 2] 1"
    by (simp add: is_admin_def)
  have b: "ctx_state (awaiting PurchaseStates_waiting_user_input)
             = Some PurchaseStates_waiting_user_input"
    by (simp add: awaiting_def)
  have v: "purchases store0 = []" "purchases_seq store0 = 0" "u_user_id alice = 42"
    by (simp_all add: store0_def alice_def)
  show ?thesis
    using a b resolve_42
      purchase_flow_commits_one_row [OF a b resolve_42, of 7000 "''''" 7010 "''''" 7020 "''''"]
    by (simp add: v)
qed

subsection \<open>The lazy partner link\<close>

lemma partners_add_user [simp]: "partners (add_user now s uid un fnm lnm rc) = partners s"
  by (simp add: add_user_def Let_def)

lemma partners_update_subscription [simp]: "partners (update_subscription s uid b) = partners s"
  by (simp add: update_subscription_def)

lemma partners_cmd_start:
  "partners (fst (snd (cmd_start now oracle s uid un fnm lnm txt))) =
     (if py_truthy un then partners (update_partner_user_id s (the un) uid) else partners s)"
  by (simp add: cmd_start_def start_register_def update_partner_user_id_def Let_def
      split: prod.splits)

lemma linked_row_kept:
  assumes "i < length (partners s)" and "p_user_id (partners s ! i) = Some n" and "n \<noteq> 0"
  shows "partners (update_partner_user_id s un uid) ! i = partners s ! i"
  using assms by (simp add: update_partner_user_id_def)

text \<open>
  C8. The lazy link \<^verbatim>\<open>update_partner_user_id\<close>, which the start command runs on every
  contact of an account with a handle, keeps the number of partner rows, and leaves
  every row whose linked account id is set and not 0 exactly as it is; so does the whole
  start command. A row that the link does change carried the handle given, had a linked
  id of 0 or none, and differs from the old row in the linked id only.
\<close>

theorem lazy_link_never_overwrites:
  assumes "i < length (partners s)"
  shows "length (partners (update_partner_user_id s un uid)) = length (partners s)
         \<and> ((\<exists>n. p_user_id (partners s ! i) = Some n \<and> n \<noteq> 0) \<longrightarrow>
              partners (update_partner_user_id s un uid) ! i = partners s ! i
              \<and> partners (fst (snd (cmd_start now oracle s uid' un' fnm lnm txt))) ! i
                  = partners s ! i)
         \<and> (partners (update_partner_user_id s un uid) ! i \<noteq> partners s ! i \<longrightarrow>
              p_username (partners s ! i) = Some un
              \<and> (p_user_id (partners s ! i) = Some 0 \<or> p_user_id (partners s ! i) = None)
              \<and> partners (update_partner_user_id s un uid) ! i
                  = (partners s ! i)\<lparr>p_user_id := Some uid\<rparr>)"
proof -
  have len: "length (partners (update_partner_user_id s un uid)) = length (partners s)"
    by (simp add: update_partner_user_id_def)
  have kept: "partners (update_partner_user_id s un uid) ! i = partners s ! i
              \<and> partners (fst (snd (cmd_start now oracle s uid' un' fnm lnm txt))) ! i
                  = partners s ! i"
    if "p_user_id (partners s ! i) = Some n" and "n \<noteq> 0" for n
    using assms that by (simp add: partners_cmd_start linked_row_kept)
  have changed: "p_username (partners s ! i) = Some un
              \<and> (p_user_id (partners s ! i) = Some 0 \<or> p_user_id (partners s ! i) = None)
              \<and> partners (update_partner_user_id s un uid) ! i
                  = (partners s ! i)\<lparr>p_user_id := Some uid\<rparr>"
    if "partners (update_partner_user_id s un uid) ! i \<noteq> partners s ! i"
    using assms that by (simp add: update_partner_user_id_def split: if_splits)
  show ?thesis
    using len kept changed by blast
qed

theorem lazy_link_never_overwrites_witness:
  "(0::nat) < length (partners store0)
   \<and> p_user_id (partners store0 ! 0) = Some 99
   \<and> partners (update_partner_user_id store0 ''bob'' 1234) ! 0 = partners store0 ! 0
   \<and> partners (fst (snd (cmd_start 8000 OracleFailure store0 1234 (Some ''bob'') (Some ''B'') None
                           ''/start''))) ! 0 = partners store0 ! 0"
proof -
  have a: "(0::nat) < length (partners store0)"
    by (simp add: store0_def)
  have b: "p_user_id (partners store0 ! 0) = Some 99"
    by (simp add: store0_def partner_bob_def)
  show ?thesis
    using a b
      lazy_link_never_overwrites [OF a, of "''bob''" 1234 8000 OracleFailure 1234 "Some ''bob''"
        "Some ''B''" None "''/start''"]
    by simp
qed

text \<open>The link is made when the stored id is 0: the second partner of the example.\<close>

lemma lazy_link_established:
  "partners (update_partner_user_id store0 ''dave'' 1234)
     = [partner_bob, partner_dave\<lparr>p_user_id := Some 1234\<rparr>]"
  by (simp add: update_partner_user_id_def store0_def partner_bob_def partner_dave_def)

subsection \<open>The subscription check\<close>

lemma set_flag_rows:
  assumes "u \<in> set (map (\<lambda>u. if u_user_id u = uid then u\<lparr>u_is_subscribed := v\<rparr> else u) xs)"
    and "u_user_id u = uid"
  shows "u_is_subscribed u = v"
proof -
  from assms(1) obtain w
    where w: "u = (if u_user_id w = uid then w\<lparr>u_is_subscribed := v\<rparr> else w)"
    unfolding set_map by blast
  show ?thesis
  proof (cases "u_user_id w = uid")
    case True
    with w show ?thesis by simp
  next
    case False
    with w assms(2) show ?thesis by simp
  qed
qed

lemma set_flag_ids:
  "map u_user_id (map (\<lambda>u. if u_user_id u = uid then u\<lparr>u_is_subscribed := v\<rparr> else u) xs)
     = map u_user_id xs"
proof -
  have same: "u_user_id (if u_user_id u = uid then u\<lparr>u_is_subscribed := v\<rparr> else u) = u_user_id u"
    for u
    by simp
  show ?thesis
    by (simp only: map_map comp_def same)
qed

lemma users_update_subscription:
  "users (update_subscription s uid b)
     = map (\<lambda>u. if u_user_id u = uid then u\<lparr>u_is_subscribed := (if b then 1 else 0)\<rparr> else u)
         (users s)"
  by (simp add: update_subscription_def)

lemma users_update_subscription_flag:
  assumes "u \<in> set (users (update_subscription s uid b))" and "u_user_id u = uid"
  shows "u_is_subscribed u = (if b then 1 else 0)"
  using assms unfolding users_update_subscription by (rule set_flag_rows)

lemma update_subscription_ids:
  "map u_user_id (users (update_subscription s uid b)) = map u_user_id (users s)"
  unfolding users_update_subscription by (rule set_flag_ids)

text \<open>
  C9. The subscription check is true exactly when the oracle reports a member whose
  status is \<open>member\<close>, \<open>administrator\<close> or \<open>creator\<close>; any other status and an oracle
  failure give false, a value and not an error. Both places that check (the button
  callback and the start command) then store the verdict: afterwards every row of the
  account carries the verdict as its subscription flag, whatever the flag was before,
  and the table has the same account ids as before.
\<close>

theorem subscription_verdict_recorded:
  "check_subscription r
     = (\<exists>st. r = MemberStatus st \<and> (st = ''member'' \<or> st = ''administrator'' \<or> st = ''creator''))
   \<and> fst (check_subscription_callback r s uid) = check_subscription r
   \<and> (\<forall>u \<in> set (users (snd (check_subscription_callback r s uid))).
        u_user_id u = uid \<longrightarrow> u_is_subscribed u = (if check_subscription r then 1 else 0))
   \<and> map u_user_id (users (snd (check_subscription_callback r s uid))) = map u_user_id (users s)
   \<and> (\<forall>u \<in> set (users (fst (snd (cmd_start now r s uid un fnm lnm txt)))).
        u_user_id u = uid \<longrightarrow> u_is_subscribed u = (if check_subscription r then 1 else 0))"
proof -
  have verdict: "check_subscription r
     = (\<exists>st. r = MemberStatus st \<and> (st = ''member'' \<or> st = ''administrator'' \<or> st = ''creator''))"
    by (cases r) (simp_all add: check_subscription_def)
  have cb: "check_subscription_callback r s uid
              = (check_subscription r, update_subscription s uid (check_subscription r))"
    by (simp add: check_subscription_callback_def Let_def)
  have st: "fst (snd (cmd_start now r s uid un fnm lnm txt))
              = update_subscription (fst (start_register now s uid un fnm lnm txt)) uid
                  (check_subscription r)"
    by (simp add: cmd_start_def Let_def split: prod.splits)
  have c1: "fst (check_subscription_callback r s uid) = check_subscription r"
    by (simp add: cb)
  have c2: "\<forall>u \<in> set (users (snd (check_subscription_callback r s uid))).
        u_user_id u = uid \<longrightarrow> u_is_subscribed u = (if check_subscription r then 1 else 0)"
    unfolding cb snd_conv using users_update_subscription_flag by blast
  have c3: "map u_user_id (users (snd (check_subscription_callback r s uid)))
              = map u_user_id (users s)"
    unfolding cb snd_conv by (rule update_subscription_ids)
  have c4: "\<forall>u \<in> set (users (fst (snd (cmd_start now r s uid un fnm lnm txt)))).
        u_user_id u = uid \<longrightarrow> u_is_subscribed u = (if check_subscription r then 1 else 0)"
    unfolding st using users_update_subscription_flag by blast
  from verdict c1 c2 c3 c4 show ?thesis
    by (intro conjI)
qed

theorem subscription_verdict_recorded_witness:
  "\<not> check_subscription OracleFailure
   \<and> \<not> check_subscription (MemberStatus ''left'')
   \<and> check_subscription (MemberStatus ''creator'')
   \<and> u_is_subscribed alice = 1
   \<and> fst (check_subscription_callback (MemberStatus ''left'') store0 42) = False
   \<and> users (snd (check_subscription_callback (MemberStatus ''left'') store0 42))
       = [alice\<lparr>u_is_subscribed := 0\<rparr>, carol]"
proof -
  have v: "\<not> check_subscription OracleFailure" "\<not> check_subscription (MemberStatus ''left'')"
    "check_subscription (MemberStatus ''creator'')" "u_is_subscribed alice = 1"
    by (simp_all add: check_subscription_def alice_def)
  have t: "users (snd (check_subscription_callback (MemberStatus ''left'') store0 42))
       = [alice\<lparr>u_is_subscribed := 0\<rparr>, carol]"
    by (simp add: check_subscription_callback_def update_subscription_def v store0_def alice_def
        carol_def)
  have "fst (check_subscription_callback (MemberStatus ''left'') store0 42) = False"
    using subscription_verdict_recorded [of "MemberStatus ''left''" store0 42] v(2)
    by simp
  with v t show ?thesis
    by (intro conjI)
qed

subsection \<open>Identifiers that start with an at sign\<close>

lemma num_strip_keeps_head:
  assumes "\<not> is_num_space c"
  shows "\<exists>t. num_strip (c # cs) = c # t"
proof (cases "\<forall>x \<in> set (rev cs). is_num_space x")
  case True
  then have "num_strip (c # cs) = [c]"
    using assms by (simp add: num_strip_def dropWhile_append)
  then show ?thesis by simp
next
  case False
  then have "num_strip (c # cs) = c # rev (dropWhile is_num_space (rev cs))"
    using assms by (simp add: num_strip_def dropWhile_append)
  then show ?thesis by simp
qed

lemma py_int_at: "py_int (CHR ''@'' # cs) = None"
proof -
  have ns: "\<not> is_num_space CHR ''@''"
    by (simp add: is_num_space_def)
  obtain t where t: "num_strip (CHR ''@'' # cs) = CHR ''@'' # t"
    using num_strip_keeps_head [OF ns] by blast
  show ?thesis
    by (cases "drop_underscores False t")
      (simp_all add: py_int_def t is_digit_def split_sign_def)
qed

lemma py_replace_absent:
  assumes "c \<notin> set s"
  shows "py_replace [c] new s = s"
  using assms
proof (induction s)
  case Nil
  then show ?case by (simp add: py_replace.simps)
next
  case (Cons x xs)
  then have "x \<noteq> c" and "py_replace [c] new xs = xs"
    by auto
  then show ?case
    by (subst py_replace.simps) simp
qed

lemma digits_no_at: "list_all is_digit ds \<Longrightarrow> CHR ''@'' \<notin> set ds"
  by (auto simp: list_all_iff is_digit_def)

lemma py_replace_at_digits:
  assumes "list_all is_digit ds"
  shows "py_replace ''@'' '''' (CHR ''@'' # ds) = ds"
proof -
  have "py_replace ''@'' '''' (CHR ''@'' # ds) = py_replace ''@'' '''' ds"
    by (subst py_replace.simps) simp
  then show ?thesis
    using assms by (simp add: py_replace_absent digits_no_at)
qed

text \<open>
  C10. An identifier made of an at sign followed by digits is looked up by handle only:
  the result is the first user row whose handle is the digit string. So a row returned
  has that handle, and when no row has it the lookup finds nothing, whatever account
  ids the table holds.
\<close>

theorem at_digits_resolved_by_handle_only:
  assumes "list_all is_digit ds"
  shows "get_user_by_id_or_username s (CHR ''@'' # ds)
           = Inr (find (\<lambda>u. u_username u = Some ds) (users s))
         \<and> (\<forall>u. get_user_by_id_or_username s (CHR ''@'' # ds) = Inr (Some u) \<longrightarrow>
                u_username u = Some ds)
         \<and> ((\<forall>u \<in> set (users s). u_username u \<noteq> Some ds) \<longrightarrow>
                get_user_by_id_or_username s (CHR ''@'' # ds) = Inr None)"
proof -
  have eq: "get_user_by_id_or_username s (CHR ''@'' # ds)
              = Inr (find (\<lambda>u. u_username u = Some ds) (users s))"
    using assms by (simp add: get_user_by_id_or_username_def py_int_at py_replace_at_digits)
  show ?thesis
    unfolding eq by (auto simp: find_Some_iff find_None_iff)
qed

lemma resolve_plain_42: "get_user_by_id_or_username store0 ''42'' = Inr (Some alice)"
  by (simp add: get_user_by_id_or_username_def py_int_def py_strip_def is_space_def num_strip_def is_num_space_def is_digit_def
      split_sign_def digits_nat_def digit_val_def in_int64_def store0_def alice_def)

theorem at_digits_resolved_by_handle_only_witness:
  "list_all is_digit ''42''
   \<and> get_user_by_id_or_username store0 ''42'' = Inr (Some alice)
   \<and> get_user_by_id_or_username store0 ''@42'' = Inr None
   \<and> get_user_by_id_or_username digits_store ''@42'' = Inr (Some numeric_handle)"
proof -
  have d: "list_all is_digit ''42''"
    by (simp add: is_digit_def)
  show ?thesis
    using d resolve_plain_42
      at_digits_resolved_by_handle_only [OF d, of store0]
      at_digits_resolved_by_handle_only [OF d, of digits_store]
    by (simp add: store0_def digits_store_def alice_def carol_def numeric_handle_def)
qed

end
